theory Spec2Isabelle
  imports Main
begin

section \<open>JSON values and Python dictionaries\<close>

text \<open>
  The values \<^verbatim>\<open>json.loads\<close> returns: \<^verbatim>\<open>None\<close>, \<^verbatim>\<open>bool\<close>, \<^verbatim>\<open>int\<close> (unbounded),
  \<^verbatim>\<open>float\<close>, \<^verbatim>\<open>str\<close>, \<^verbatim>\<open>list\<close> and \<^verbatim>\<open>dict\<close>. Floating point numbers are not
  interpreted by the program, so their type is a parameter \<open>'f\<close>. A \<^verbatim>\<open>dict\<close> keeps its
  keys in insertion order, so it is an association list; one \<open>char\<close> stands for one
  character of a Python \<^verbatim>\<open>str\<close>.
\<close>

datatype 'f json =
    JNull
  | JBool bool
  | JInt int
  | JFloat 'f
  | JStr string
  | JArr "'f json list"
  | JObj "(string \<times> 'f json) list"

type_synonym 'f pydict = "(string \<times> 'f json) list"

text \<open>\<^verbatim>\<open>d[k] = v\<close>: an existing key keeps its position, a new key goes to the end.\<close>

fun dict_setitem :: "'f pydict \<Rightarrow> string \<Rightarrow> 'f json \<Rightarrow> 'f pydict" where
  "dict_setitem [] k v = [(k, v)]"
| "dict_setitem ((k', v') # d) k v =
     (if k' = k then (k', v) # d else (k', v') # dict_setitem d k v)"

text \<open>\<^verbatim>\<open>d.update(other)\<close>: \<^verbatim>\<open>d[k] = v\<close> for every item of \<open>other\<close>, in its order.\<close>

definition dict_update :: "'f pydict \<Rightarrow> 'f pydict \<Rightarrow> 'f pydict" where
  "dict_update d other = foldl (\<lambda>d (k, v). dict_setitem d k v) d other"

text \<open>Python exceptions the program can meet, as values.\<close>

datatype exn = KeyError | IndexError | TypeError | JSONDecodeError | S3Error | ArrowInvalid

text \<open>\<^verbatim>\<open>d[k]\<close> on a dict raises \<^verbatim>\<open>KeyError\<close> for a missing key.\<close>

definition dict_getitem :: "'f pydict \<Rightarrow> string \<Rightarrow> exn + 'f json" where
  "dict_getitem d k = (case map_of d k of None \<Rightarrow> Inl KeyError | Some v \<Rightarrow> Inr v)"

text \<open>
  \<^verbatim>\<open>v[0]\<close> on a value made by \<^verbatim>\<open>json.loads\<close>: the first element of a list, the first
  character of a string, \<^verbatim>\<open>IndexError\<close> when either is empty; a dict has string keys only,
  so the key \<open>0\<close> is missing; the other values are not subscriptable.
\<close>

fun subscript0 :: "'f json \<Rightarrow> exn + 'f json" where
  "subscript0 (JArr []) = Inl IndexError"
| "subscript0 (JArr (x # xs)) = Inr x"
| "subscript0 (JStr []) = Inl IndexError"
| "subscript0 (JStr (c # cs)) = Inr (JStr [c])"
| "subscript0 (JObj d) = Inl KeyError"
| "subscript0 JNull = Inl TypeError"
| "subscript0 (JBool b) = Inl TypeError"
| "subscript0 (JInt n) = Inl TypeError"
| "subscript0 (JFloat x) = Inl TypeError"

text \<open>
  \<^verbatim>\<open>for record in data\<close>: a list gives its elements, a string its characters, a dict its
  keys; the other values are not iterable.
\<close>

fun iterate :: "'f json \<Rightarrow> exn + 'f json list" where
  "iterate (JArr xs) = Inr xs"
| "iterate (JStr s) = Inr (map (\<lambda>c. JStr [c]) s)"
| "iterate (JObj d) = Inr (map (\<lambda>(k, v). JStr k) d)"
| "iterate JNull = Inl TypeError"
| "iterate (JBool b) = Inl TypeError"
| "iterate (JInt n) = Inl TypeError"
| "iterate (JFloat x) = Inl TypeError"

section \<open>Decimal rendering and string operations\<close>

definition digit_char :: "nat \<Rightarrow> char" where
  "digit_char d = ''0123456789'' ! d"

text \<open>\<^verbatim>\<open>str(i)\<close> for a natural number, as \<^verbatim>\<open>enumerate\<close> counts.\<close>

fun str_nat :: "nat \<Rightarrow> string" where
  "str_nat n = (if n < 10 then [digit_char n] else str_nat (n div 10) @ [digit_char (n mod 10)])"

declare str_nat.simps [simp del]

text \<open>\<^verbatim>\<open>str(i)\<close> for an \<^verbatim>\<open>int\<close>, as an f-string renders it.\<close>

definition str_int :: "int \<Rightarrow> string" where
  "str_int i = (if i < 0 then ''-'' @ str_nat (nat (- i)) else str_nat (nat i))"

text \<open>\<^verbatim>\<open>s.split(c)\<close> for a separator of one character: never an empty list.\<close>

fun split :: "string \<Rightarrow> char \<Rightarrow> string list" where
  "split [] c = [[]]"
| "split (x # xs) c =
     (if x = c then [] # split xs c
      else (case split xs c of [] \<Rightarrow> [[x]] | w # ws \<Rightarrow> (x # w) # ws))"

text \<open>
  \<^verbatim>\<open>s.replace(old, new)\<close>: every occurrence of \<open>old\<close>, found from the left and not
  overlapping, becomes \<open>new\<close>. For an empty \<open>old\<close> Python puts \<open>new\<close> before every
  character and at the end.
\<close>

function replace_from :: "string \<Rightarrow> string \<Rightarrow> string \<Rightarrow> string" where
  "replace_from [] old new = []"
| "replace_from (x # xs) old new =
     (if old \<noteq> [] \<and> take (length old) (x # xs) = old
      then new @ replace_from (drop (length old) (x # xs)) old new
      else x # replace_from xs old new)"
  by pat_completeness auto
termination
  by (relation "measure (\<lambda>(s, old, new). length s)") (auto simp: neq_Nil_conv)

declare replace_from.simps(2) [simp del]

definition replace :: "string \<Rightarrow> string \<Rightarrow> string \<Rightarrow> string" where
  "replace s old new =
     (if old = [] then new @ concat (map (\<lambda>c. c # new) s) else replace_from s old new)"

section \<open>The flattener\<close>

text \<open>
  \<^verbatim>\<open>_flatten(obj, parent_key, sep)\<close> of \<^verbatim>\<open>flatten_json_string\<close> (an Isabelle name cannot
  start with an underscore). \<open>items\<close> is the dictionary the loops fill; an empty
  \<open>parent_key\<close> is falsy, so the child key is then the key or index alone.
\<close>

function flatten :: "'f json \<Rightarrow> string \<Rightarrow> string \<Rightarrow> 'f pydict" where
  "flatten (JObj kvs) parent_key sep =
     foldl (\<lambda>items (k, v).
              let new_key = (if parent_key \<noteq> [] then parent_key @ sep @ k else k)
              in dict_update items (flatten v new_key sep))
       [] kvs"
| "flatten (JArr vs) parent_key sep =
     foldl (\<lambda>items (i, v).
              let new_key = (if parent_key \<noteq> [] then parent_key @ sep @ str_nat i else str_nat i)
              in dict_update items (flatten v new_key sep))
       [] (enumerate 0 vs)"
| "flatten JNull parent_key sep = dict_setitem [] parent_key JNull"
| "flatten (JBool b) parent_key sep = dict_setitem [] parent_key (JBool b)"
| "flatten (JInt n) parent_key sep = dict_setitem [] parent_key (JInt n)"
| "flatten (JFloat x) parent_key sep = dict_setitem [] parent_key (JFloat x)"
| "flatten (JStr s) parent_key sep = dict_setitem [] parent_key (JStr s)"
  by pat_completeness auto
termination
proof (relation "measure (\<lambda>(obj, parent_key, sep). size obj)")
  fix kvs :: "(string \<times> 'f json) list" and parent_key sep :: string and x k v new_key
  assume "x \<in> set kvs" "(k, v) = x"
  then have "(k, v) \<in> set kvs" by simp
  then have "size v < Suc (size_list (size_prod (\<lambda>_. 0) size) kvs)"
    by (induction kvs) auto
  then show "((v, new_key, sep), (JObj kvs, parent_key, sep))
      \<in> measure (\<lambda>(obj, parent_key, sep). size obj)" by simp
next
  fix vs :: "'f json list" and parent_key sep :: string and x i v new_key
  assume "x \<in> set (enumerate 0 vs)" "(i, v) = x"
  then have "v \<in> set vs" by (auto simp: in_set_enumerate_eq)
  then have "size v < Suc (size_list size vs)"
    by (induction vs) auto
  then show "((v, new_key, sep), (JArr vs, parent_key, sep))
      \<in> measure (\<lambda>(obj, parent_key, sep). size obj)" by simp
qed simp

text \<open>
  \<^verbatim>\<open>flatten_json_string(json_str, sep)\<close>: \<^verbatim>\<open>json.loads\<close> is the library's, taken as the
  parameter \<open>loads\<close>; when it raises, the function prints and returns \<^verbatim>\<open>None\<close>.
\<close>

definition flatten_json_string ::
  "(string \<Rightarrow> exn + 'f json) \<Rightarrow> string \<Rightarrow> string \<Rightarrow> 'f pydict option" where
  "flatten_json_string loads json_str sep =
     (case loads json_str of
        Inl e \<Rightarrow> None
      | Inr data \<Rightarrow> Some (flatten data [] sep))"

subsection \<open>Scalar leaves, as the specification counts them\<close>

fun is_scalar :: "'f json \<Rightarrow> bool" where
  "is_scalar (JArr vs) = False"
| "is_scalar (JObj kvs) = False"
| "is_scalar v = True"

fun scalar_leaves :: "'f json \<Rightarrow> nat" where
  "scalar_leaves (JObj kvs) = sum_list (map (\<lambda>(k, v). scalar_leaves v) kvs)"
| "scalar_leaves (JArr vs) = sum_list (map scalar_leaves vs)"
| "scalar_leaves v = 1"

text \<open>
  The leaf paths of a document in traversal order, each with its flattened key and its
  scalar: the list the specification's traversal enumerates, before any two of them are
  merged under one key.
\<close>

function leaf_entries :: "'f json \<Rightarrow> string \<Rightarrow> string \<Rightarrow> (string \<times> 'f json) list" where
  "leaf_entries (JObj kvs) parent_key sep =
     concat (map (\<lambda>(k, v).
        leaf_entries v (if parent_key \<noteq> [] then parent_key @ sep @ k else k) sep) kvs)"
| "leaf_entries (JArr vs) parent_key sep =
     concat (map (\<lambda>(i, v).
        leaf_entries v (if parent_key \<noteq> [] then parent_key @ sep @ str_nat i else str_nat i) sep)
       (enumerate 0 vs))"
| "leaf_entries JNull parent_key sep = [(parent_key, JNull)]"
| "leaf_entries (JBool b) parent_key sep = [(parent_key, JBool b)]"
| "leaf_entries (JInt n) parent_key sep = [(parent_key, JInt n)]"
| "leaf_entries (JFloat x) parent_key sep = [(parent_key, JFloat x)]"
| "leaf_entries (JStr s) parent_key sep = [(parent_key, JStr s)]"
  by pat_completeness auto
termination
proof (relation "measure (\<lambda>(obj, parent_key, sep). size obj)")
  fix kvs :: "(string \<times> 'f json) list" and parent_key sep :: string and x k v
  assume "x \<in> set kvs" "(k, v) = x"
  then have "(k, v) \<in> set kvs" by simp
  then have "size v < Suc (size_list (size_prod (\<lambda>_. 0) size) kvs)"
    by (induction kvs) auto
  then show "((v, if parent_key \<noteq> [] then parent_key @ sep @ k else k, sep), (JObj kvs, parent_key, sep))
      \<in> measure (\<lambda>(obj, parent_key, sep). size obj)" by simp
next
  fix vs :: "'f json list" and parent_key sep :: string and x i v
  assume "x \<in> set (enumerate 0 vs)" "(i, v) = x"
  then have "v \<in> set vs" by (auto simp: in_set_enumerate_eq)
  then have "size v < Suc (size_list size vs)"
    by (induction vs) auto
  then show "((v, if parent_key \<noteq> [] then parent_key @ sep @ str_nat i else str_nat i, sep),
       (JArr vs, parent_key, sep))
      \<in> measure (\<lambda>(obj, parent_key, sep). size obj)" by simp
qed simp

section \<open>The record batch\<close>

record 'f dataframe =
  columns :: "string list"
  rows :: "'f json list list"

text \<open>
  \<^verbatim>\<open>pandas.DataFrame\<close>, called on the list of flattened records, is a third-party
  library and not part of the sources. The four definitions below take the
  specification's RecordBatch for it.
\<close>

text \<open>
  Modelled from the spec: the step of \<^verbatim>\<open>pandas.DataFrame\<close> (not in the sources) that
  adds the keys of one record to the column set, "in first-seen order": a key already
  among the columns keeps its place, a new one goes to the end.
\<close>

definition add_columns :: "string list \<Rightarrow> string list \<Rightarrow> string list" where
  "add_columns cols ks = foldl (\<lambda>cols k. if k \<in> set cols then cols else cols @ [k]) cols ks"

text \<open>
  Modelled from the spec: the column set of \<^verbatim>\<open>pandas.DataFrame\<close> (not in the sources),
  "the union of all FlatKeys seen across the batch, in first-seen order", records taken
  in sequence order.
\<close>

definition union_columns :: "'f pydict list \<Rightarrow> string list" where
  "union_columns flattened_data = foldl (\<lambda>cols flat. add_columns cols (map fst flat)) [] flattened_data"

text \<open>
  Modelled from the spec: one cell of \<^verbatim>\<open>pandas.DataFrame\<close> (not in the sources),
  "substitute Null when the FlatRecord lacks that key".
\<close>

definition cell :: "'f pydict \<Rightarrow> string \<Rightarrow> 'f json" where
  "cell flat c = (case map_of flat c of None \<Rightarrow> JNull | Some v \<Rightarrow> v)"

text \<open>
  Modelled from the spec: \<^verbatim>\<open>pandas.DataFrame\<close> (not in the sources) on a list of
  flattened records, the RecordBatch: "for each FlatRecord, for each column in the unified
  set", the cell.
\<close>

definition DataFrame :: "'f pydict list \<Rightarrow> 'f dataframe" where
  "DataFrame flattened_data =
     (let cols = union_columns flattened_data
      in \<lparr>columns = cols, rows = map (\<lambda>flat. map (cell flat) cols) flattened_data\<rparr>)"

section \<open>External collaborators\<close>

text \<open>
  What the program calls and does not define: \<^verbatim>\<open>json.loads\<close> and \<^verbatim>\<open>json.dumps\<close>, the
  columnar encoder (\<^verbatim>\<open>pa.Table.from_pandas\<close> and \<^verbatim>\<open>pq.write_table\<close> into a buffer) and
  the methods of the MinIO client. They are the fields of an environment; every property
  is proved for all environments. A client method takes the state \<open>'s\<close> of the world and
  returns what it returns or raises, with the state after the call. The endpoint and the
  credentials only reach the client's constructor and are left out. \<open>'b\<close> is the type of
  an encoded buffer. \<open>get_object\<close> stands for \<^verbatim>\<open>client.get_object\<close>, reading the response
  and decoding it as UTF-8.
\<close>

record ('f, 'b, 's) env =
  loads :: "string \<Rightarrow> exn + 'f json"
  dumps :: "'f json \<Rightarrow> string"
  to_parquet :: "'f dataframe \<Rightarrow> exn + 'b"
  list_objects :: "'s \<Rightarrow> string \<Rightarrow> string \<Rightarrow> (exn + string list) \<times> 's"
  get_object :: "'s \<Rightarrow> string \<Rightarrow> string \<Rightarrow> (exn + string) \<times> 's"
  bucket_exists :: "'s \<Rightarrow> string \<Rightarrow> (exn + bool) \<times> 's"
  make_bucket :: "'s \<Rightarrow> string \<Rightarrow> (exn + unit) \<times> 's"
  put_object :: "'s \<Rightarrow> string \<Rightarrow> string \<Rightarrow> 'b \<Rightarrow> (exn + unit) \<times> 's"

section \<open>The functions of main.py\<close>

text \<open>
  A Python call returns a value or raises, so every function of \<^verbatim>\<open>main.py\<close> that
  calls the client returns a sum, with the state after the call. \<^verbatim>\<open>try: body except
  Exception as e: handler\<close>, for a handler that prints and gives a value: what the body
  returns, or the handler's value when the body raises. Printing is not modelled, nor is
  an exception that is not an \<^verbatim>\<open>Exception\<close> (an interrupt).
\<close>

definition try_except :: "(exn + 'a) \<times> 's \<Rightarrow> (exn \<Rightarrow> 'a) \<Rightarrow> (exn + 'a) \<times> 's" where
  "try_except body handler =
     (case body of
        (Inl e, s') \<Rightarrow> (Inr (handler e), s')
      | (Inr v, s') \<Rightarrow> (Inr v, s'))"

text \<open>
  \<^verbatim>\<open>list_objects_in_minio_folder\<close>: the names listed, or the empty list when the client
  raises (the \<^verbatim>\<open>except\<close> branch prints and returns \<^verbatim>\<open>[]\<close>).
\<close>

definition list_objects_in_minio_folder ::
  "('f, 'b, 's) env \<Rightarrow> 's \<Rightarrow> string \<Rightarrow> string \<Rightarrow> (exn + string list) \<times> 's" where
  "list_objects_in_minio_folder E s bucket_name prefix =
     try_except (list_objects E s bucket_name prefix) (\<lambda>e. [])"

text \<open>\<^verbatim>\<open>read_json_from_minio\<close>: the text of the object, or \<^verbatim>\<open>None\<close> when the client raises.\<close>

definition read_json_from_minio ::
  "('f, 'b, 's) env \<Rightarrow> 's \<Rightarrow> string \<Rightarrow> string \<Rightarrow> (exn + string option) \<times> 's" where
  "read_json_from_minio E s bucket_name object_name =
     try_except
       (case get_object E s bucket_name object_name of
          (Inl e, s') \<Rightarrow> (Inl e, s')
        | (Inr json_str, s') \<Rightarrow> (Inr (Some json_str), s'))
       (\<lambda>e. None)"

text \<open>
  Lines 122 to 124 of \<^verbatim>\<open>json_string_to_parquet_minio\<close> and the iteration of line 127:
  the records of the parsed document. A dict is replaced by the one-element list
  \<^verbatim>\<open>[data["results"][0]]\<close>.
\<close>

definition records_of :: "'f json \<Rightarrow> exn + 'f json list" where
  "records_of data =
     (case data of
        JObj d \<Rightarrow>
          (case dict_getitem d ''results'' of
             Inl e \<Rightarrow> Inl e
           | Inr results \<Rightarrow>
               (case subscript0 results of
                  Inl e \<Rightarrow> Inl e
                | Inr first \<Rightarrow> iterate (JArr [first])))
      | _ \<Rightarrow> iterate data)"

text \<open>
  Lines 122 to 132: the value of \<^verbatim>\<open>df\<close>, or the exception raised on the way.
  \<^verbatim>\<open>json.loads(None)\<close> raises \<^verbatim>\<open>TypeError\<close>. Each record is written out with
  \<^verbatim>\<open>json.dumps\<close> and flattened with the default separator; a record whose flattening is
  \<^verbatim>\<open>None\<close> is left out.
\<close>

definition build_df :: "('f, 'b, 's) env \<Rightarrow> string option \<Rightarrow> exn + 'f dataframe" where
  "build_df E json_str =
     (case json_str of
        None \<Rightarrow> Inl TypeError
      | Some text \<Rightarrow>
          (case loads E text of
             Inl e \<Rightarrow> Inl e
           | Inr data \<Rightarrow>
               (case records_of data of
                  Inl e \<Rightarrow> Inl e
                | Inr records \<Rightarrow>
                    Inr (DataFrame
                      (List.map_filter
                         (\<lambda>record. flatten_json_string (loads E) (dumps E record) ''_'')
                         records)))))"

text \<open>What \<^verbatim>\<open>json_string_to_parquet_minio\<close> prints last: the upload, or the exception caught.\<close>

datatype outcome = Uploaded string string | ConvertError exn

text \<open>
  Lines 137 to 151: the bucket is made when it does not exist, then the buffer is put and
  the upload is printed. An exception of the client leaves this part.
\<close>

definition upload ::
  "('f, 'b, 's) env \<Rightarrow> 's \<Rightarrow> 'b \<Rightarrow> string \<Rightarrow> string \<Rightarrow> (exn + outcome) \<times> 's" where
  "upload E s out_buffer bucket_name object_name =
     (case bucket_exists E s bucket_name of
        (Inl e, s1) \<Rightarrow> (Inl e, s1)
      | (Inr exists, s1) \<Rightarrow>
          (case (if \<not> exists then make_bucket E s1 bucket_name else (Inr (), s1)) of
             (Inl e, s2) \<Rightarrow> (Inl e, s2)
           | (Inr u, s2) \<Rightarrow>
               (case put_object E s2 bucket_name object_name out_buffer of
                  (Inl e, s3) \<Rightarrow> (Inl e, s3)
                | (Inr u', s3) \<Rightarrow> (Inr (Uploaded bucket_name object_name), s3))))"

text \<open>
  \<^verbatim>\<open>json_string_to_parquet_minio\<close>: one \<^verbatim>\<open>try\<close> around everything; any exception is
  caught and printed, and the function returns normally.
\<close>

definition json_string_to_parquet_minio ::
  "('f, 'b, 's) env \<Rightarrow> 's \<Rightarrow> string option \<Rightarrow> string \<Rightarrow> string \<Rightarrow> (exn + outcome) \<times> 's" where
  "json_string_to_parquet_minio E s json_str bucket_name object_name =
     try_except
       (case build_df E json_str of
          Inl e \<Rightarrow> (Inl e, s)
        | Inr df \<Rightarrow>
            (case to_parquet E df of
               Inl e \<Rightarrow> (Inl e, s)
             | Inr out_buffer \<Rightarrow> upload E s out_buffer bucket_name object_name))
       (\<lambda>e. ConvertError e)"

text \<open>Line 189: the destination name of a source object.\<close>

definition destination_object_name :: "int \<Rightarrow> int \<Rightarrow> int \<Rightarrow> int \<Rightarrow> string \<Rightarrow> string" where
  "destination_object_name year month day hour source_object_name =
     ''year='' @ str_int year @ ''/month='' @ str_int month @ ''/day='' @ str_int day
       @ ''/hour='' @ str_int hour @ ''/''
       @ replace (last (split source_object_name (CHR ''/''))) ''.json'' ''.parquet''"

text \<open>One pass of the loop of \<^verbatim>\<open>main\<close>, with what it prints about the object.\<close>

record iteration =
  it_source :: string
  it_json_str :: "string option"
  it_destination :: string
  it_outcome :: outcome

text \<open>
  The loop of \<^verbatim>\<open>main\<close> has no \<^verbatim>\<open>try\<close>: an exception raised by a call in its body
  would end the loop and leave \<^verbatim>\<open>main\<close>.
\<close>

fun main_loop ::
  "('f, 'b, 's) env \<Rightarrow> 's \<Rightarrow> (int \<times> int \<times> int \<times> int) \<Rightarrow> string \<Rightarrow> string \<Rightarrow> string list
     \<Rightarrow> (exn + iteration list) \<times> 's" where
  "main_loop E s ymdh source_bucket_name destination_bucket_name [] = (Inr [], s)"
| "main_loop E s ymdh source_bucket_name destination_bucket_name (object_name # rest) =
     (case ymdh of (year, month, day, hour) \<Rightarrow>
      let source_object_name = object_name
      in (case read_json_from_minio E s source_bucket_name source_object_name of
            (Inl e, s1) \<Rightarrow> (Inl e, s1)
          | (Inr json_str, s1) \<Rightarrow>
              let destination_object_name =
                    destination_object_name year month day hour source_object_name
              in (case json_string_to_parquet_minio E s1 json_str destination_bucket_name
                         destination_object_name of
                    (Inl e, s2) \<Rightarrow> (Inl e, s2)
                  | (Inr out, s2) \<Rightarrow>
                      (case main_loop E s2 ymdh source_bucket_name destination_bucket_name rest of
                         (Inl e, s3) \<Rightarrow> (Inl e, s3)
                       | (Inr its, s3) \<Rightarrow>
                           (Inr (\<lparr>it_source = source_object_name, it_json_str = json_str,
                                   it_destination = destination_object_name,
                                   it_outcome = out\<rparr> # its), s3)))))"

record report =
  files :: "string list"
  iterations :: "iteration list"

text \<open>
  \<^verbatim>\<open>main\<close> has no \<^verbatim>\<open>try\<close> either: it raises what the listing or the loop raises, and
  otherwise returns with the names listed and the passes of the loop. Elapsed times are
  not modelled.
\<close>

definition main :: "('f, 'b, 's) env \<Rightarrow> 's \<Rightarrow> (exn + report) \<times> 's" where
  "main E s =
     (let source_bucket_name = ''raw'';
          destination_bucket_name = ''processed'';
          year = 2025; month = 12; day = 19; hour = 14
      in (case list_objects_in_minio_folder E s source_bucket_name
                 (''year='' @ str_int year @ ''/month='' @ str_int month @ ''/day='' @ str_int day
                    @ ''/hour='' @ str_int hour @ ''/'') of
            (Inl e, s1) \<Rightarrow> (Inl e, s1)
          | (Inr objects_to_be_transformed, s1) \<Rightarrow>
              (case main_loop E s1 (year, month, day, hour) source_bucket_name
                      destination_bucket_name objects_to_be_transformed of
                 (Inl e, s2) \<Rightarrow> (Inl e, s2)
               | (Inr its, s2) \<Rightarrow>
                   (Inr \<lparr>files = objects_to_be_transformed, iterations = its\<rparr>, s2))))"

section \<open>An in-memory environment\<close>

text \<open>
  A small environment on which the functions can be run: a parser and a writer given by
  a table of texts, an encoder that keeps the frame as it is, and a store that records
  the buckets made and the objects written. \<open>listing\<close> is what the source bucket lists
  (\<open>None\<close> when listing raises), \<open>contents\<close> the text of each readable object,
  \<open>unwritable\<close> the destination names whose upload raises.
\<close>

definition demo_texts :: "(string \<times> unit json) list" where
  \<open>demo_texts =
     [(''{"a": {"b": 1, "c": [2,3]}}'',
         JObj [(''a'', JObj [(''b'', JInt 1), (''c'', JArr [JInt 2, JInt 3])])]),
      (''{"a": {"b": 1}, "a_b": 2}'', JObj [(''a'', JObj [(''b'', JInt 1)]), (''a_b'', JInt 2)]),
      (''{"name": "Ann", "age": 30, "ok": true, "note": null}'',
         JObj [(''name'', JStr ''Ann''), (''age'', JInt 30), (''ok'', JBool True), (''note'', JNull)]),
      (''{"x": 1}'', JObj [(''x'', JInt 1)]),
      (''{"y": 2}'', JObj [(''y'', JInt 2)]),
      (''[{"x":1},{"y":2}]'', JArr [JObj [(''x'', JInt 1)], JObj [(''y'', JInt 2)]]),
      (''{"results": []}'', JObj [(''results'', JArr [])]),
      (''{"results": null}'', JObj [(''results'', JNull)]),
      (''[]'', JArr [])]\<close>

definition demo_loads :: "string \<Rightarrow> exn + unit json" where
  "demo_loads text = (case map_of demo_texts text of None \<Rightarrow> Inl JSONDecodeError | Some v \<Rightarrow> Inr v)"

definition demo_dumps :: "unit json \<Rightarrow> string" where
  "demo_dumps v = (case List.find (\<lambda>(t, w). w = v) demo_texts of None \<Rightarrow> ''null'' | Some (t, w) \<Rightarrow> t)"

record store =
  made_buckets :: "string list"
  written :: "(string \<times> string \<times> unit dataframe) list"

definition demo_env ::
  "string list option \<Rightarrow> (string \<times> string) list \<Rightarrow> string list
     \<Rightarrow> (unit, unit dataframe, store) env" where
  "demo_env listing contents unwritable =
     \<lparr>loads = demo_loads,
      dumps = demo_dumps,
      to_parquet = (\<lambda>df. Inr df),
      list_objects = (\<lambda>s bucket prefix.
         (case listing of None \<Rightarrow> Inl S3Error | Some names \<Rightarrow> Inr names, s)),
      get_object = (\<lambda>s bucket name.
         (case map_of contents name of None \<Rightarrow> Inl S3Error | Some text \<Rightarrow> Inr text, s)),
      bucket_exists = (\<lambda>s bucket. (Inr (bucket \<in> set (made_buckets s)), s)),
      make_bucket = (\<lambda>s bucket. (Inr (), s\<lparr>made_buckets := bucket # made_buckets s\<rparr>)),
      put_object = (\<lambda>s bucket name buf.
         if name \<in> set unwritable then (Inl S3Error, s)
         else (Inr (), s\<lparr>written := (bucket, name, buf) # written s\<rparr>))\<rparr>"

definition empty_store :: store where
  "empty_store = \<lparr>made_buckets = [], written = []\<rparr>"

text \<open>
  A source bucket with five objects under the partition prefix: one that cannot be read,
  one that is not JSON, an object without \<^verbatim>\<open>results\<close>, and two arrays of records, the
  first of which cannot be written to its destination.
\<close>

definition demo_listing :: "string list" where
  "demo_listing =
     [''year=2025/month=12/day=19/hour=14/a.json'',
      ''year=2025/month=12/day=19/hour=14/b.json'',
      ''year=2025/month=12/day=19/hour=14/c.json'',
      ''year=2025/month=12/day=19/hour=14/d.json'',
      ''year=2025/month=12/day=19/hour=14/e.json'']"

definition demo_contents :: "(string \<times> string) list" where
  \<open>demo_contents =
     [(''year=2025/month=12/day=19/hour=14/b.json'', ''not json''),
      (''year=2025/month=12/day=19/hour=14/c.json'', ''{"x": 1}''),
      (''year=2025/month=12/day=19/hour=14/d.json'', ''[{"x":1},{"y":2}]''),
      (''year=2025/month=12/day=19/hour=14/e.json'', ''[{"x":1},{"y":2}]'')]\<close>

definition demo_unwritable :: "string list" where
  "demo_unwritable = [''year=2025/month=12/day=19/hour=14/d.parquet'']"

section \<open>Dictionaries: keys, lookups and updates\<close>

lemma add_columns_Nil [simp]: "add_columns cols [] = cols"
  by (simp add: add_columns_def)

lemma add_columns_Cons [simp]:
  "add_columns cols (k # ks) = add_columns (if k \<in> set cols then cols else cols @ [k]) ks"
  by (simp add: add_columns_def)

lemma add_columns_append: "add_columns cols (xs @ ys) = add_columns (add_columns cols xs) ys"
  by (simp add: add_columns_def)

lemma set_add_columns: "set (add_columns cols ks) = set cols \<union> set ks"
  by (induction ks arbitrary: cols) auto

lemma distinct_add_columns: "distinct cols \<Longrightarrow> distinct (add_columns cols ks)"
  by (induction ks arbitrary: cols) auto

lemma add_columns_first_seen: "add_columns [] ks = rev (remdups (rev ks))"
proof (induction ks rule: rev_induct)
  case Nil
  then show ?case by simp
next
  case (snoc k ks)
  have "add_columns [] (ks @ [k]) = add_columns (add_columns [] ks) [k]"
    by (rule add_columns_append)
  then show ?case using snoc by (simp add: set_add_columns)
qed

lemma add_columns_distinct_id: "distinct ks \<Longrightarrow> add_columns [] ks = ks"
  by (simp add: add_columns_first_seen distinct_remdups_id)

lemma keys_setitem:
  "map fst (dict_setitem d k v) = (if k \<in> set (map fst d) then map fst d else map fst d @ [k])"
  by (induction d) force+

lemma map_of_setitem: "map_of (dict_setitem d k v) = (map_of d)(k \<mapsto> v)"
  by (induction d) (auto simp: fun_eq_iff)

lemma dict_update_Nil [simp]: "dict_update d [] = d"
  by (simp add: dict_update_def)

lemma dict_update_Cons [simp]: "dict_update d ((k, v) # es) = dict_update (dict_setitem d k v) es"
  by (simp add: dict_update_def)

lemma dict_update_append: "dict_update d (xs @ ys) = dict_update (dict_update d xs) ys"
  by (simp add: dict_update_def)

lemma keys_dict_update: "map fst (dict_update d es) = add_columns (map fst d) (map fst es)"
proof (induction es arbitrary: d)
  case Nil
  then show ?case by simp
next
  case (Cons e es)
  obtain k v where e: "e = (k, v)" by (cases e)
  show ?case unfolding e by (simp add: Cons.IH keys_setitem)
qed

lemma map_of_dict_update: "map_of (dict_update d es) = map_of d ++ map_of (rev es)"
proof (induction es arbitrary: d)
  case Nil
  then show ?case by simp
next
  case (Cons e es)
  obtain k v where e: "e = (k, v)" by (cases e)
  show ?case
    unfolding e by (simp add: Cons.IH map_of_setitem map_add_upd_left fun_eq_iff map_add_def split: option.splits)
qed

lemma setitem_twice: "dict_setitem (dict_setitem d k v') k v = dict_setitem d k v"
  by (induction d) auto

lemma setitem_swap:
  "k \<in> fst ` set d \<Longrightarrow> k' \<noteq> k \<Longrightarrow>
   dict_setitem (dict_setitem d k v) k' v' = dict_setitem (dict_setitem d k' v') k v"
proof (induction d)
  case Nil
  then show ?case by simp
next
  case (Cons p d)
  obtain a b where p: "p = (a, b)" by (cases p)
  show ?case
  proof (cases "a = k")
    case True
    then show ?thesis using Cons.prems p by simp
  next
    case False
    then have "k \<in> fst ` set d" using Cons.prems(1) p by auto
    then show ?thesis using Cons.IH Cons.prems(2) p False by simp
  qed
qed

lemma setitem_update_swap:
  "k \<notin> fst ` set es \<Longrightarrow> k \<in> fst ` set d \<Longrightarrow>
   dict_setitem (dict_update d es) k v = dict_update (dict_setitem d k v) es"
proof (induction es arbitrary: d)
  case Nil
  then show ?case by simp
next
  case (Cons e es)
  obtain k' v' where e: "e = (k', v')" by (cases e)
  have ne: "k' \<noteq> k" and notin: "k \<notin> fst ` set es" using Cons.prems(1) e by auto
  have "k \<in> fst ` set (dict_setitem d k' v')"
    using Cons.prems(2) keys_setitem [of d k' v'] by (metis (no_types, lifting) UnCI list.set_map set_append)
  then have "dict_setitem (dict_update (dict_setitem d k' v') es) k v
      = dict_update (dict_setitem (dict_setitem d k' v') k v) es"
    using Cons.IH notin by blast
  then show ?case
    unfolding e using setitem_swap [OF Cons.prems(2) ne] by simp
qed

lemma update_setitem:
  "distinct (map fst e) \<Longrightarrow> dict_update d (dict_setitem e k v) = dict_setitem (dict_update d e) k v"
proof (induction e arbitrary: d)
  case Nil
  then show ?case by simp
next
  case (Cons p e)
  obtain k' v' where p: "p = (k', v')" by (cases p)
  show ?case
  proof (cases "k' = k")
    case True
    have notin: "k \<notin> fst ` set e" using Cons.prems p True by auto
    have "k \<in> fst ` set (dict_setitem d k v')"
      using keys_setitem [of d k v'] by (metis (no_types, lifting) UnCI list.set_map set_append list.set_intros(1))
    then have "dict_setitem (dict_update (dict_setitem d k v') e) k v
        = dict_update (dict_setitem (dict_setitem d k v') k v) e"
      using setitem_update_swap notin by blast
    then show ?thesis using p True by (simp add: setitem_twice)
  next
    case False
    then show ?thesis using Cons p by simp
  qed
qed

lemma distinct_keys_update: "distinct (map fst d) \<Longrightarrow> distinct (map fst (dict_update d es))"
  by (simp add: keys_dict_update distinct_add_columns)

lemma update_update_Nil: "dict_update d (dict_update [] es) = dict_update d es"
proof (induction es rule: rev_induct)
  case Nil
  then show ?case by simp
next
  case (snoc e es)
  obtain k v where e: "e = (k, v)" by (cases e)
  have "distinct (map fst (dict_update [] es))"
    by (simp add: distinct_keys_update)
  then show ?case
    unfolding e by (simp add: dict_update_append update_setitem snoc)
qed

lemma foldl_update_concat:
  assumes "\<And>x. x \<in> set xs \<Longrightarrow> F x = dict_update [] (G x)"
  shows "foldl (\<lambda>items x. dict_update items (F x)) acc xs = dict_update acc (concat (map G xs))"
  using assms
proof (induction xs arbitrary: acc)
  case Nil
  then show ?case by simp
next
  case (Cons x xs)
  then show ?case
    by (simp add: dict_update_append update_update_Nil)
qed

lemma flatten_leaf_entries: "flatten v parent_key sep = dict_update [] (leaf_entries v parent_key sep)"
proof (induction v parent_key sep rule: flatten.induct)
  case (1 kvs parent_key sep)
  have "foldl (\<lambda>items x. dict_update items
           (flatten (snd x) (if parent_key \<noteq> [] then parent_key @ sep @ fst x else fst x) sep)) [] kvs
      = dict_update [] (concat (map (\<lambda>x. leaf_entries (snd x) (if parent_key \<noteq> [] then parent_key @ sep @ fst x else fst x) sep) kvs))"
    by (rule foldl_update_concat) (use 1 in \<open>auto simp: case_prod_beta\<close>)
  then show ?case unfolding flatten.simps leaf_entries.simps Let_def case_prod_beta .
next
  case (2 vs parent_key sep)
  have "foldl (\<lambda>items x. dict_update items
           (flatten (snd x) (if parent_key \<noteq> [] then parent_key @ sep @ str_nat (fst x) else str_nat (fst x)) sep)) [] (enumerate 0 vs)
      = dict_update [] (concat (map (\<lambda>x. leaf_entries (snd x) (if parent_key \<noteq> [] then parent_key @ sep @ str_nat (fst x) else str_nat (fst x)) sep) (enumerate 0 vs)))"
    by (rule foldl_update_concat) (use 2 in \<open>auto simp: case_prod_beta\<close>)
  then show ?case unfolding flatten.simps leaf_entries.simps Let_def case_prod_beta .
qed simp_all

lemma setitem_fresh: "k \<notin> fst ` set d \<Longrightarrow> dict_setitem d k v = d @ [(k, v)]"
  by (induction d) auto

lemma dict_update_distinct: "distinct (map fst (d @ es)) \<Longrightarrow> dict_update d es = d @ es"
proof (induction es arbitrary: d)
  case Nil
  then show ?case by simp
next
  case (Cons e es)
  obtain k v where e: "e = (k, v)" by (cases e)
  have fresh: "k \<notin> fst ` set d" using Cons.prems e by auto
  have "distinct (map fst ((d @ [(k, v)]) @ es))" using Cons.prems e by simp
  then have "dict_update (d @ [(k, v)]) es = (d @ [(k, v)]) @ es" by (rule Cons.IH)
  then show ?case unfolding e by (simp add: setitem_fresh [OF fresh])
qed

lemma set_setitem: "set (dict_setitem d k v) \<subseteq> insert (k, v) (set d)"
  by (induction d) (auto split: if_splits)

lemma set_dict_update: "set (dict_update d es) \<subseteq> set d \<union> set es"
proof (induction es arbitrary: d)
  case Nil
  then show ?case by simp
next
  case (Cons e es)
  obtain k v where e: "e = (k, v)" by (cases e)
  show ?case unfolding e using Cons.IH [of "dict_setitem d k v"] set_setitem [of d k v] by auto
qed

lemma leaf_entries_scalar: "e \<in> set (leaf_entries v parent_key sep) \<Longrightarrow> is_scalar (snd e)"
  by (induction v parent_key sep rule: leaf_entries.induct) auto

lemma map_snd_enumerate_comp: "map (\<lambda>x. f (snd x)) (enumerate n vs) = map f vs"
  by (induction vs arbitrary: n) simp_all

lemma length_leaf_entries: "length (leaf_entries v parent_key sep) = scalar_leaves v"
proof (induction v parent_key sep rule: leaf_entries.induct)
  case (1 kvs parent_key sep)
  have "map (\<lambda>x. length (leaf_entries (snd x) (if parent_key \<noteq> [] then parent_key @ sep @ fst x else fst x) sep)) kvs
      = map (\<lambda>x. scalar_leaves (snd x)) kvs"
    by (rule map_cong [OF refl]) (use 1 in \<open>auto simp: case_prod_beta\<close>)
  then have "sum_list (map (\<lambda>x. length (leaf_entries (snd x) (if parent_key \<noteq> [] then parent_key @ sep @ fst x else fst x) sep)) kvs)
      = sum_list (map (\<lambda>x. scalar_leaves (snd x)) kvs)"
    by (rule arg_cong)
  then show ?case by (simp add: length_concat comp_def split_def)
next
  case (2 vs parent_key sep)
  have "map (\<lambda>x. length (leaf_entries (snd x) (if parent_key \<noteq> [] then parent_key @ sep @ str_nat (fst x) else str_nat (fst x)) sep)) (enumerate 0 vs)
      = map (\<lambda>x. scalar_leaves (snd x)) (enumerate 0 vs)"
    by (rule map_cong [OF refl]) (use 2 in \<open>auto simp: case_prod_beta\<close>)
  then have "sum_list (map (\<lambda>x. length (leaf_entries (snd x) (if parent_key \<noteq> [] then parent_key @ sep @ str_nat (fst x) else str_nat (fst x)) sep)) (enumerate 0 vs))
      = sum_list (map scalar_leaves vs)"
    by (simp only: map_snd_enumerate_comp)
  then show ?case by (simp add: length_concat comp_def split_def)
qed simp_all

lemma keys_flatten:
  "map fst (flatten v parent_key sep) = rev (remdups (rev (map fst (leaf_entries v parent_key sep))))"
  by (simp add: flatten_leaf_entries keys_dict_update add_columns_first_seen)

lemma length_flatten:
  "length (flatten v parent_key sep) = card (fst ` set (leaf_entries v parent_key sep))"
proof -
  have "length (flatten v parent_key sep) = length (map fst (flatten v parent_key sep))" by simp
  also have "\<dots> = length (remdups (rev (map fst (leaf_entries v parent_key sep))))"
    unfolding keys_flatten by simp
  also have "\<dots> = card (set (rev (map fst (leaf_entries v parent_key sep))))"
    by (rule length_remdups_card_conv)
  finally show ?thesis by simp
qed

lemma flatten_scalar: "e \<in> set (flatten v parent_key sep) \<Longrightarrow> is_scalar (snd e)"
  using set_dict_update [of "[]" "leaf_entries v parent_key sep"] leaf_entries_scalar [of e v parent_key sep]
  by (auto simp: flatten_leaf_entries)

lemma flatten_count:
  "length (flatten v parent_key sep) \<le> scalar_leaves v \<and>
   (length (flatten v parent_key sep) = scalar_leaves v
      \<longleftrightarrow> distinct (map fst (leaf_entries v parent_key sep)))"
proof -
  let ?ks = "map fst (leaf_entries v parent_key sep)"
  have len: "length ?ks = scalar_leaves v" by (simp add: length_leaf_entries)
  have card: "length (flatten v parent_key sep) = card (set ?ks)" by (simp add: length_flatten)
  have "card (set ?ks) \<le> length ?ks" by (rule card_length)
  moreover have "card (set ?ks) = length ?ks \<longleftrightarrow> distinct ?ks"
    using card_distinct distinct_card by blast
  ultimately show ?thesis using len card by simp
qed

section \<open>The flattener: entries and scalar leaves\<close>

text \<open>
  Claim C5, as amended. For every parseable JSON input the flattener returns a mapping
  with at most one entry per scalar leaf of the input: the number of entries is at most
  the number of scalar leaves, and equal to it exactly when no two leaves have the same
  flattened key. No entry's value is an Object or an Array.
\<close>

theorem flatten_entry_count:
  assumes "json_loads json_str = Inr data"
  shows "\<exists>flat. flatten_json_string json_loads json_str sep = Some flat
           \<and> length flat \<le> scalar_leaves data
           \<and> (length flat = scalar_leaves data \<longleftrightarrow> distinct (map fst (leaf_entries data [] sep)))
           \<and> (\<forall>e \<in> set flat. is_scalar (snd e))"
  using assms flatten_count [of data "[]" sep] flatten_scalar [of _ data "[]" sep]
  by (simp add: flatten_json_string_def)

text \<open>The amended claim on the document \<^verbatim>\<open>{"a": {"b": 1, "c": [2,3]}}\<close>.\<close>

theorem flatten_entry_count_witness:
  \<open>demo_loads ''{"a": {"b": 1, "c": [2,3]}}''
       = Inr (JObj [(''a'', JObj [(''b'', JInt 1), (''c'', JArr [JInt 2, JInt 3])])])
   \<and> (\<exists>flat. flatten_json_string demo_loads ''{"a": {"b": 1, "c": [2,3]}}'' ''_'' = Some flat
           \<and> length flat \<le> 3 \<and> length flat = 3
           \<and> (\<forall>e \<in> set flat. is_scalar (snd e)))\<close>
proof -
  have l: \<open>demo_loads ''{"a": {"b": 1, "c": [2,3]}}''
       = Inr (JObj [(''a'', JObj [(''b'', JInt 1), (''c'', JArr [JInt 2, JInt 3])])])\<close>
    by (simp add: demo_loads_def demo_texts_def)
  have d: "distinct (map fst (leaf_entries (JObj [(''a'', JObj [(''b'', JInt 1), (''c'', JArr [JInt 2, JInt 3 :: unit json])])]) [] ''_''))"
    by (simp add: str_nat.simps digit_char_def)
  show ?thesis
    using flatten_entry_count [where json_loads = demo_loads and sep = "''_''", OF l] l d by (simp add: str_nat.simps digit_char_def numeral_3_eq_3)
qed

text \<open>
  Claim C5 as stated fails on \<^verbatim>\<open>{"a": {"b": 1}, "a_b": 2}\<close>: two scalar leaves, one entry.
\<close>

theorem flatten_entry_count_counterexample:
  \<open>demo_loads ''{"a": {"b": 1}, "a_b": 2}'' = Inr (JObj [(''a'', JObj [(''b'', JInt 1)]), (''a_b'', JInt 2)])
   \<and> flatten_json_string demo_loads ''{"a": {"b": 1}, "a_b": 2}'' ''_'' = Some [(''a_b'', JInt 2)]
   \<and> scalar_leaves (JObj [(''a'', JObj [(''b'', JInt 1)]), (''a_b'', JInt 2 :: unit json)]) = 2
   \<and> length [(''a_b'', JInt 2 :: unit json)]
        \<noteq> scalar_leaves (JObj [(''a'', JObj [(''b'', JInt 1)]), (''a_b'', JInt 2 :: unit json)])\<close>
  by (simp add: demo_loads_def demo_texts_def flatten_json_string_def)

section \<open>The flattener: examples, flat input and colliding keys\<close>

text \<open>
  Claim C8. Flattening the document \<^verbatim>\<open>{"a": {"b": 1, "c": [2,3]}}\<close> with separator
  \<^verbatim>\<open>_\<close> yields exactly \<^verbatim>\<open>{"a_b": 1, "a_c_0": 2, "a_c_1": 3}\<close>, in this order.
\<close>

theorem flatten_example:
  assumes "json_loads json_str
             = Inr (JObj [(''a'', JObj [(''b'', JInt 1), (''c'', JArr [JInt 2, JInt 3])])])"
  shows "flatten_json_string json_loads json_str ''_''
           = Some [(''a_b'', JInt 1), (''a_c_0'', JInt 2), (''a_c_1'', JInt 3)]"
  using assms by (simp add: flatten_json_string_def str_nat.simps digit_char_def)

theorem flatten_example_witness:
  \<open>demo_loads ''{"a": {"b": 1, "c": [2,3]}}''
       = Inr (JObj [(''a'', JObj [(''b'', JInt 1), (''c'', JArr [JInt 2, JInt 3])])])
   \<and> flatten_json_string demo_loads ''{"a": {"b": 1, "c": [2,3]}}'' ''_''
       = Some [(''a_b'', JInt 1), (''a_c_0'', JInt 2), (''a_c_1'', JInt 3)]\<close>
proof -
  have l: \<open>demo_loads ''{"a": {"b": 1, "c": [2,3]}}''
       = Inr (JObj [(''a'', JObj [(''b'', JInt 1), (''c'', JArr [JInt 2, JInt 3])])])\<close>
    by (simp add: demo_loads_def demo_texts_def)
  show ?thesis
    using flatten_example [where json_loads = demo_loads, OF l] l by simp
qed

lemma leaf_entries_flat:
  "\<forall>v \<in> snd ` set kvs. is_scalar v \<Longrightarrow>
   concat (map (\<lambda>(k, v). leaf_entries v k sep) kvs) = kvs"
proof (induction kvs)
  case Nil
  then show ?case by simp
next
  case (Cons p kvs)
  obtain k v where p: "p = (k, v)" by (cases p)
  have "is_scalar v" using Cons.prems p by simp
  then have "leaf_entries v k sep = [(k, v)]" by (cases v) simp_all
  then show ?case using Cons p by simp
qed

text \<open>
  Claim C9. Flattening a single-level object whose values are all scalars yields the same
  object: the same keys with the same values in the same order, whatever the separator.
  The keys of a Python dict are distinct.
\<close>

theorem flatten_flat_object:
  assumes "json_loads json_str = Inr (JObj kvs)"
    and "distinct (map fst kvs)"
    and "\<forall>v \<in> snd ` set kvs. is_scalar v"
  shows "flatten_json_string json_loads json_str sep = Some kvs"
proof -
  have "leaf_entries (JObj kvs) [] sep = kvs"
    using leaf_entries_flat [OF assms(3)] by simp
  then have "flatten (JObj kvs) [] sep = dict_update [] kvs"
    by (simp only: flatten_leaf_entries)
  also have "\<dots> = kvs"
    using dict_update_distinct [of "[]" kvs] assms(2) by simp
  finally show ?thesis using assms(1) by (simp add: flatten_json_string_def)
qed

theorem flatten_flat_object_witness:
  \<open>demo_loads ''{"name": "Ann", "age": 30, "ok": true, "note": null}''
       = Inr (JObj [(''name'', JStr ''Ann''), (''age'', JInt 30), (''ok'', JBool True), (''note'', JNull)])
   \<and> distinct (map fst [(''name'', JStr ''Ann''), (''age'', JInt 30), (''ok'', JBool True), (''note'', JNull :: unit json)])
   \<and> is_scalar (JStr ''Ann'' :: unit json) \<and> is_scalar (JInt 30 :: unit json)
   \<and> is_scalar (JBool True :: unit json) \<and> is_scalar (JNull :: unit json)
   \<and> flatten_json_string demo_loads ''{"name": "Ann", "age": 30, "ok": true, "note": null}'' ''_''
       = Some [(''name'', JStr ''Ann''), (''age'', JInt 30), (''ok'', JBool True), (''note'', JNull)]\<close>
proof -
  have l: \<open>demo_loads ''{"name": "Ann", "age": 30, "ok": true, "note": null}''
       = Inr (JObj [(''name'', JStr ''Ann''), (''age'', JInt 30), (''ok'', JBool True), (''note'', JNull)])\<close>
    by (simp add: demo_loads_def demo_texts_def)
  have d: "distinct (map fst [(''name'', JStr ''Ann''), (''age'', JInt 30), (''ok'', JBool True), (''note'', JNull :: unit json)])"
    by simp
  have s: "\<forall>v \<in> snd ` set [(''name'', JStr ''Ann''), (''age'', JInt 30), (''ok'', JBool True), (''note'', JNull :: unit json)]. is_scalar v"
    by simp
  show ?thesis
    using flatten_flat_object [where json_loads = demo_loads and sep = "''_''", OF l d s] l d
    by simp
qed

lemma map_of_rev_last:
  "k \<notin> fst ` set after \<Longrightarrow> map_of (rev (before @ (k, x) # after)) k = Some x"
  by (simp add: map_of_eq_None_iff [THEN iffD2] map_add_def split: option.splits)

lemma filter_distinct_key:
  "distinct (map fst d) \<Longrightarrow> map_of d k = Some x \<Longrightarrow> filter (\<lambda>e. fst e = k) d = [(k, x)]"
proof (induction d)
  case Nil
  then show ?case by simp
next
  case (Cons p d)
  obtain a b where p: "p = (a, b)" by (cases p)
  show ?case
  proof (cases "a = k")
    case True
    then have "filter (\<lambda>e. fst e = k) d = []"
      using Cons.prems(1) p by (auto simp: filter_empty_conv)
    then show ?thesis using Cons.prems p True by simp
  next
    case False
    then show ?thesis using Cons p by simp
  qed
qed

lemma flatten_filter_last:
  assumes "leaf_entries v parent_key sep = before @ (k, x) # after"
    and "k \<notin> fst ` set after"
  shows "filter (\<lambda>e. fst e = k) (flatten v parent_key sep) = [(k, x)]"
proof -
  have "map_of (flatten v parent_key sep) k = map_of (rev (leaf_entries v parent_key sep)) k"
    by (simp add: flatten_leaf_entries map_of_dict_update)
  then have m: "map_of (flatten v parent_key sep) k = Some x"
    using assms map_of_rev_last [of k after before x] by simp
  have "distinct (map fst (flatten v parent_key sep))"
    using distinct_keys_update [of "[]"] by (simp add: flatten_leaf_entries)
  then show ?thesis using m by (rule filter_distinct_key)
qed

text \<open>
  Claim C10. When several leaf paths of a document give the same flattened key \<open>k\<close>
  (\<open>before\<close> may hold any number of leaves with the key \<open>k\<close>, \<open>after\<close> holds none),
  the flattener returns a mapping, raising nothing, that has exactly one entry for \<open>k\<close>;
  its value is that of the leaf reached last in traversal order.
\<close>

theorem flatten_last_writer_wins:
  assumes "json_loads json_str = Inr data"
    and "leaf_entries data [] sep = before @ (k, x) # after"
    and "k \<notin> fst ` set after"
  shows "\<exists>flat. flatten_json_string json_loads json_str sep = Some flat
           \<and> filter (\<lambda>e. fst e = k) flat = [(k, x)]"
  using assms(1) flatten_filter_last [OF assms(2) assms(3)]
  by (simp add: flatten_json_string_def)

text \<open>
  The document \<^verbatim>\<open>{"a": {"b": 1}, "a_b": 2}\<close> with separator \<^verbatim>\<open>_\<close>: the leaves
  \<^verbatim>\<open>a.b\<close> and \<^verbatim>\<open>a_b\<close> share the key \<^verbatim>\<open>a_b\<close>, and the result is \<^verbatim>\<open>{"a_b": 2}\<close>.
\<close>

theorem flatten_last_writer_wins_witness:
  \<open>demo_loads ''{"a": {"b": 1}, "a_b": 2}''
      = Inr (JObj [(''a'', JObj [(''b'', JInt 1)]), (''a_b'', JInt 2)])
   \<and> leaf_entries (JObj [(''a'', JObj [(''b'', JInt 1)]), (''a_b'', JInt 2 :: unit json)]) [] ''_''
      = [(''a_b'', JInt 1)] @ (''a_b'', JInt 2) # []
   \<and> ''a_b'' \<notin> fst ` set ([] :: (string \<times> unit json) list)
   \<and> (\<exists>flat. flatten_json_string demo_loads ''{"a": {"b": 1}, "a_b": 2}'' ''_'' = Some flat
           \<and> filter (\<lambda>e. fst e = ''a_b'') flat = [(''a_b'', JInt 2)])
   \<and> flatten_json_string demo_loads ''{"a": {"b": 1}, "a_b": 2}'' ''_'' = Some [(''a_b'', JInt 2)]\<close>
proof -
  have l: \<open>demo_loads ''{"a": {"b": 1}, "a_b": 2}''
      = Inr (JObj [(''a'', JObj [(''b'', JInt 1)]), (''a_b'', JInt 2)])\<close>
    by (simp add: demo_loads_def demo_texts_def)
  have e: "leaf_entries (JObj [(''a'', JObj [(''b'', JInt 1)]), (''a_b'', JInt 2 :: unit json)]) [] ''_''
      = [(''a_b'', JInt 1)] @ (''a_b'', JInt 2) # []"
    by simp
  have n: "''a_b'' \<notin> fst ` set ([] :: (string \<times> unit json) list)"
    by simp
  have f: \<open>flatten_json_string demo_loads ''{"a": {"b": 1}, "a_b": 2}'' ''_'' = Some [(''a_b'', JInt 2)]\<close>
    using l by (simp add: flatten_json_string_def)
  show ?thesis
    using flatten_last_writer_wins [where json_loads = demo_loads, OF l e n] l e n f by blast
qed

section \<open>The columns and rows of the record batch\<close>

lemma union_columns_concat:
  "foldl (\<lambda>cols flat. add_columns cols (map fst flat)) acc fs
     = add_columns acc (concat (map (map fst) fs))"
  by (induction fs arbitrary: acc) (simp_all add: add_columns_append)

lemma union_columns_first_seen:
  "union_columns fs = rev (remdups (rev (concat (map (map fst) fs))))"
  by (simp add: union_columns_def union_columns_concat add_columns_first_seen)

lemma map_filter_round_trip:
  "\<forall>r \<in> set records. json_loads (json_dumps r) = Inr r \<Longrightarrow>
   List.map_filter (\<lambda>record. flatten_json_string json_loads (json_dumps record) sep) records
     = map (\<lambda>r. flatten r [] sep) records"
  by (induction records) (simp_all add: List.map_filter_simps flatten_json_string_def)

text \<open>
  Claim C4. For every sequence of input records (the elements of a parsed Array, or
  whatever else lines 123 to 127 take as the records; each record is one that
  \<^verbatim>\<open>json.loads\<close> reads back from what \<^verbatim>\<open>json.dumps\<close> writes), the columns of the
  assembled batch are the keys of all flattened records in first-seen order, each once,
  and every row holds, column by column, the record's value or Null where the record has
  no such key.
\<close>

theorem batch_columns_and_rows:
  assumes "loads E text = Inr data"
    and "records_of data = Inr records"
    and "\<forall>r \<in> set records. loads E (dumps E r) = Inr r"
  shows "\<exists>df. build_df E (Some text) = Inr df
           \<and> columns df = rev (remdups (rev (concat (map (\<lambda>r. map fst (flatten r [] ''_'')) records))))
           \<and> rows df = map (\<lambda>r. map (\<lambda>c. case map_of (flatten r [] ''_'') c of
                                              None \<Rightarrow> JNull | Some v \<Rightarrow> v) (columns df)) records"
proof -
  let ?flats = "map (\<lambda>r. flatten r [] ''_'') records"
  have b: "build_df E (Some text) = Inr (DataFrame ?flats)"
    using assms(1) assms(2) map_filter_round_trip [OF assms(3), of "''_''"]
    by (simp add: build_df_def)
  have c: "columns (DataFrame ?flats)
      = rev (remdups (rev (concat (map (\<lambda>r. map fst (flatten r [] ''_'')) records))))"
    by (simp add: DataFrame_def Let_def union_columns_first_seen comp_def)
  have r: "rows (DataFrame ?flats)
      = map (\<lambda>r. map (\<lambda>c. case map_of (flatten r [] ''_'') c of None \<Rightarrow> JNull | Some v \<Rightarrow> v)
                 (columns (DataFrame ?flats))) records"
    by (simp add: DataFrame_def Let_def cell_def comp_def)
  show ?thesis using b c r by blast
qed

text \<open>Assembling \<^verbatim>\<open>[{"x":1},{"y":2}]\<close>: columns \<^verbatim>\<open>[x, y]\<close>, rows \<^verbatim>\<open>{x:1, y:Null}\<close> and \<^verbatim>\<open>{x:Null, y:2}\<close>.\<close>

theorem batch_columns_and_rows_witness:
  \<open>loads (demo_env (Some []) [] []) ''[{"x":1},{"y":2}]''
      = Inr (JArr [JObj [(''x'', JInt 1)], JObj [(''y'', JInt 2)]])
   \<and> records_of (JArr [JObj [(''x'', JInt 1)], JObj [(''y'', JInt 2 :: unit json)]])
      = Inr [JObj [(''x'', JInt 1)], JObj [(''y'', JInt 2)]]
   \<and> loads (demo_env (Some []) [] []) (dumps (demo_env (Some []) [] []) (JObj [(''x'', JInt 1)]))
      = Inr (JObj [(''x'', JInt 1)])
   \<and> loads (demo_env (Some []) [] []) (dumps (demo_env (Some []) [] []) (JObj [(''y'', JInt 2)]))
      = Inr (JObj [(''y'', JInt 2)])
   \<and> build_df (demo_env (Some []) [] []) (Some ''[{"x":1},{"y":2}]'')
      = Inr \<lparr>columns = [''x'', ''y''], rows = [[JInt 1, JNull], [JNull, JInt 2]]\<rparr>\<close>
proof -
  have l: \<open>loads (demo_env (Some []) [] []) ''[{"x":1},{"y":2}]''
      = Inr (JArr [JObj [(''x'', JInt 1)], JObj [(''y'', JInt 2)]])\<close>
    by (simp add: demo_env_def demo_loads_def demo_texts_def)
  have rs: "records_of (JArr [JObj [(''x'', JInt 1)], JObj [(''y'', JInt 2 :: unit json)]])
      = Inr [JObj [(''x'', JInt 1)], JObj [(''y'', JInt 2)]]"
    by (simp add: records_of_def)
  have rt: "\<forall>r \<in> set [JObj [(''x'', JInt 1)], JObj [(''y'', JInt 2)]].
         loads (demo_env (Some []) [] []) (dumps (demo_env (Some []) [] []) r) = Inr r"
    by (simp add: demo_env_def demo_loads_def demo_dumps_def demo_texts_def)
  obtain df where df: \<open>build_df (demo_env (Some []) [] []) (Some ''[{"x":1},{"y":2}]'') = Inr df\<close>
    and c: "columns df = rev (remdups (rev (concat (map (\<lambda>r. map fst (flatten r [] ''_''))
              [JObj [(''x'', JInt 1)], JObj [(''y'', JInt 2 :: unit json)]]))))"
    and r: "rows df = map (\<lambda>r. map (\<lambda>c. case map_of (flatten r [] ''_'') c of
                                              None \<Rightarrow> JNull | Some v \<Rightarrow> v) (columns df))
              [JObj [(''x'', JInt 1)], JObj [(''y'', JInt 2 :: unit json)]]"
    using batch_columns_and_rows [OF l rs rt] by blast
  have "columns df = [''x'', ''y'']" using c by simp
  moreover from this have "rows df = [[JInt 1, JNull], [JNull, JInt 2]]" using r by simp
  ultimately have "df = \<lparr>columns = [''x'', ''y''], rows = [[JInt 1, JNull], [JNull, JInt 2]]\<rparr>"
    by (cases df) simp
  then show ?thesis using l rs rt df by simp
qed

section \<open>Objects, empty inputs and the assembler\<close>

lemmas run_defs =
  try_except_def json_string_to_parquet_minio_def build_df_def records_of_def dict_getitem_def upload_def
  DataFrame_def union_columns_def cell_def flatten_json_string_def List.map_filter_simps
  list_objects_in_minio_folder_def read_json_from_minio_def destination_object_name_def
  str_int_def str_nat.simps digit_char_def replace_def replace_from.simps Let_def

lemmas demo_defs =
  demo_env_def demo_loads_def demo_dumps_def demo_texts_def empty_store_def
  demo_listing_def demo_contents_def demo_unwritable_def

text \<open>
  Claim C1, as amended. For an input whose parsed value is an Object without a
  \<^verbatim>\<open>results\<close> key, the assembler does not take the Object as a record: the lookup
  raises \<^verbatim>\<open>KeyError\<close>, which is caught and printed; no batch is built, the store is left
  as it was, and the function returns normally. The same holds, with \<^verbatim>\<open>TypeError\<close> or
  \<^verbatim>\<open>KeyError\<close>, when \<^verbatim>\<open>results\<close> holds Null, a Bool, a Number or an Object.
\<close>

theorem object_without_results:
  assumes "loads E text = Inr (JObj d)"
  shows "(map_of d ''results'' = None \<longrightarrow>
            json_string_to_parquet_minio E s (Some text) bucket_name object_name
              = (Inr (ConvertError KeyError), s))
       \<and> (\<forall>r. map_of d ''results'' = Some r \<longrightarrow>
                (r = JNull \<or> (\<exists>b. r = JBool b) \<or> (\<exists>n. r = JInt n) \<or> (\<exists>x. r = JFloat x)) \<longrightarrow>
            json_string_to_parquet_minio E s (Some text) bucket_name object_name
              = (Inr (ConvertError TypeError), s))
       \<and> (\<forall>kvs. map_of d ''results'' = Some (JObj kvs) \<longrightarrow>
            json_string_to_parquet_minio E s (Some text) bucket_name object_name
              = (Inr (ConvertError KeyError), s))"
  using assms
  by (auto simp: json_string_to_parquet_minio_def try_except_def build_df_def records_of_def
        dict_getitem_def)

theorem object_without_results_witness:
  \<open>loads (demo_env (Some []) [] []) ''{"y": 2}'' = Inr (JObj [(''y'', JInt 2)])
   \<and> map_of [(''y'', JInt 2 :: unit json)] ''results'' = None
   \<and> json_string_to_parquet_minio (demo_env (Some []) [] []) empty_store (Some ''{"y": 2}'')
        ''processed'' ''year=2025/month=12/day=19/hour=14/c.parquet''
      = (Inr (ConvertError KeyError), empty_store)
   \<and> loads (demo_env (Some []) [] []) ''{"results": null}'' = Inr (JObj [(''results'', JNull)])
   \<and> map_of [(''results'', JNull :: unit json)] ''results'' = Some JNull
   \<and> json_string_to_parquet_minio (demo_env (Some []) [] []) empty_store (Some ''{"results": null}'')
        ''processed'' ''year=2025/month=12/day=19/hour=14/c.parquet''
      = (Inr (ConvertError TypeError), empty_store)\<close>
proof -
  have l0: \<open>loads (demo_env (Some []) [] []) ''{"y": 2}'' = Inr (JObj [(''y'', JInt 2)])\<close>
    by (simp add: demo_defs)
  have m0: "map_of [(''y'', JInt 2 :: unit json)] ''results'' = None"
    by simp
  have l: \<open>loads (demo_env (Some []) [] []) ''{"results": null}'' = Inr (JObj [(''results'', JNull)])\<close>
    by (simp add: demo_defs)
  have m: "map_of [(''results'', JNull :: unit json)] ''results'' = Some JNull"
    by simp
  show ?thesis
    using object_without_results [OF l0, of empty_store "''processed''"
        "''year=2025/month=12/day=19/hour=14/c.parquet''"]
      object_without_results [OF l, of empty_store "''processed''"
        "''year=2025/month=12/day=19/hour=14/c.parquet''"] l0 m0 l m
    by blast
qed

text \<open>
  Claim C1 as stated fails on \<^verbatim>\<open>{"x": 1}\<close>: no one-row batch is built from the Object;
  \<^verbatim>\<open>KeyError\<close> is caught and nothing is written.
\<close>

theorem object_without_results_counterexample:
  \<open>loads (demo_env (Some []) [] []) ''{"x": 1}'' = Inr (JObj [(''x'', JInt 1)])
   \<and> map_of [(''x'', JInt 1 :: unit json)] ''results'' = None
   \<and> build_df (demo_env (Some []) [] []) (Some ''{"x": 1}'') = Inl KeyError
   \<and> build_df (demo_env (Some []) [] []) (Some ''{"x": 1}'')
        \<noteq> Inr (DataFrame [flatten (JObj [(''x'', JInt 1)]) [] ''_''])
   \<and> json_string_to_parquet_minio (demo_env (Some []) [] []) empty_store (Some ''{"x": 1}'')
        ''processed'' ''year=2025/month=12/day=19/hour=14/c.parquet''
      = (Inr (ConvertError KeyError), empty_store)\<close>
  by (simp add: run_defs demo_defs)


text \<open>
  Claim C2, as amended. An object whose \<^verbatim>\<open>results\<close> array is empty makes the assembler
  fail (\<^verbatim>\<open>IndexError\<close>, caught and printed) and nothing is written. The text \<^verbatim>\<open>[]\<close> does
  not: it gives a batch with no columns and no rows, which is encoded and, when the
  encoder and the store raise nothing, written as the output object, into the bucket
  that exists or that is made for it.
\<close>

theorem zero_records:
  "(loads E text = Inr (JObj d) \<longrightarrow> map_of d ''results'' = Some (JArr []) \<longrightarrow>
      json_string_to_parquet_minio E s (Some text) bucket_name object_name
        = (Inr (ConvertError IndexError), s))
   \<and> (loads E text = Inr (JArr []) \<longrightarrow>
        build_df E (Some text) = Inr \<lparr>columns = [], rows = []\<rparr>
        \<and> (\<forall>out_buffer s1 s2.
              to_parquet E \<lparr>columns = [], rows = []\<rparr> = Inr out_buffer \<longrightarrow>
              bucket_exists E s bucket_name = (Inr True, s1) \<longrightarrow>
              put_object E s1 bucket_name object_name out_buffer = (Inr (), s2) \<longrightarrow>
              json_string_to_parquet_minio E s (Some text) bucket_name object_name
                = (Inr (Uploaded bucket_name object_name), s2))
        \<and> (\<forall>out_buffer s1 s2 s3.
              to_parquet E \<lparr>columns = [], rows = []\<rparr> = Inr out_buffer \<longrightarrow>
              bucket_exists E s bucket_name = (Inr False, s1) \<longrightarrow>
              make_bucket E s1 bucket_name = (Inr (), s2) \<longrightarrow>
              put_object E s2 bucket_name object_name out_buffer = (Inr (), s3) \<longrightarrow>
              json_string_to_parquet_minio E s (Some text) bucket_name object_name
                = (Inr (Uploaded bucket_name object_name), s3)))"
  by (auto simp: json_string_to_parquet_minio_def try_except_def build_df_def records_of_def
        dict_getitem_def upload_def DataFrame_def union_columns_def List.map_filter_simps)

theorem zero_records_witness:
  \<open>loads (demo_env (Some []) [] []) ''{"results": []}'' = Inr (JObj [(''results'', JArr [])])
   \<and> map_of [(''results'', JArr [] :: unit json)] ''results'' = Some (JArr [])
   \<and> json_string_to_parquet_minio (demo_env (Some []) [] []) empty_store (Some ''{"results": []}'')
        ''processed'' ''year=2025/month=12/day=19/hour=14/c.parquet''
      = (Inr (ConvertError IndexError), empty_store)
   \<and> loads (demo_env (Some []) [] []) ''[]'' = Inr (JArr [])
   \<and> to_parquet (demo_env (Some []) [] []) \<lparr>columns = [], rows = []\<rparr> = Inr \<lparr>columns = [], rows = []\<rparr>
   \<and> bucket_exists (demo_env (Some []) [] []) \<lparr>made_buckets = [''processed''], written = []\<rparr> ''processed''
        = (Inr True, \<lparr>made_buckets = [''processed''], written = []\<rparr>)
   \<and> put_object (demo_env (Some []) [] []) \<lparr>made_buckets = [''processed''], written = []\<rparr> ''processed''
        ''year=2025/month=12/day=19/hour=14/c.parquet'' \<lparr>columns = [], rows = []\<rparr>
        = (Inr (), \<lparr>made_buckets = [''processed''],
             written = [(''processed'', ''year=2025/month=12/day=19/hour=14/c.parquet'',
                         \<lparr>columns = [], rows = []\<rparr>)]\<rparr>)
   \<and> json_string_to_parquet_minio (demo_env (Some []) [] [])
        \<lparr>made_buckets = [''processed''], written = []\<rparr> (Some ''[]'')
        ''processed'' ''year=2025/month=12/day=19/hour=14/c.parquet''
      = (Inr (Uploaded ''processed'' ''year=2025/month=12/day=19/hour=14/c.parquet''),
         \<lparr>made_buckets = [''processed''],
            written = [(''processed'', ''year=2025/month=12/day=19/hour=14/c.parquet'',
                        \<lparr>columns = [], rows = []\<rparr>)]\<rparr>)
   \<and> bucket_exists (demo_env (Some []) [] []) \<lparr>made_buckets = [], written = []\<rparr> ''processed''
        = (Inr False, \<lparr>made_buckets = [], written = []\<rparr>)
   \<and> make_bucket (demo_env (Some []) [] []) \<lparr>made_buckets = [], written = []\<rparr> ''processed''
        = (Inr (), \<lparr>made_buckets = [''processed''], written = []\<rparr>)
   \<and> json_string_to_parquet_minio (demo_env (Some []) [] [])
        \<lparr>made_buckets = [], written = []\<rparr> (Some ''[]'')
        ''processed'' ''year=2025/month=12/day=19/hour=14/c.parquet''
      = (Inr (Uploaded ''processed'' ''year=2025/month=12/day=19/hour=14/c.parquet''),
         \<lparr>made_buckets = [''processed''],
            written = [(''processed'', ''year=2025/month=12/day=19/hour=14/c.parquet'',
                        \<lparr>columns = [], rows = []\<rparr>)]\<rparr>)\<close>
proof -
  let ?E = "demo_env (Some []) [] []"
  let ?fresh = "\<lparr>made_buckets = [], written = []\<rparr>"
  let ?s = "\<lparr>made_buckets = [''processed''], written = []\<rparr>"
  let ?name = "''year=2025/month=12/day=19/hour=14/c.parquet''"
  let ?final = "\<lparr>made_buckets = [''processed''],
             written = [(''processed'', ?name, \<lparr>columns = [], rows = []\<rparr>)]\<rparr>"
  have l1: \<open>loads ?E ''{"results": []}'' = Inr (JObj [(''results'', JArr [])])\<close>
    by (simp add: demo_defs)
  have m: "map_of [(''results'', JArr [] :: unit json)] ''results'' = Some (JArr [])"
    by simp
  have l2: "loads ?E ''[]'' = Inr (JArr [])"
    by (simp add: demo_defs)
  have t: "to_parquet ?E \<lparr>columns = [], rows = []\<rparr> = Inr \<lparr>columns = [], rows = []\<rparr>"
    by (simp add: demo_defs)
  have b: "bucket_exists ?E ?s ''processed'' = (Inr True, ?s)"
    by (simp add: demo_defs)
  have p: "put_object ?E ?s ''processed'' ?name \<lparr>columns = [], rows = []\<rparr> = (Inr (), ?final)"
    by (simp add: demo_defs)
  have b0: "bucket_exists ?E ?fresh ''processed'' = (Inr False, ?fresh)"
    by (simp add: demo_defs)
  have mk: "make_bucket ?E ?fresh ''processed'' = (Inr (), ?s)"
    by (simp add: demo_defs)
  have a: \<open>json_string_to_parquet_minio ?E empty_store (Some ''{"results": []}'') ''processed'' ?name
      = (Inr (ConvertError IndexError), empty_store)\<close>
    using zero_records [of ?E \<open>''{"results": []}''\<close> "[(''results'', JArr [])]" empty_store
        "''processed''" ?name] l1 m
    by blast
  have c: "json_string_to_parquet_minio ?E ?s (Some ''[]'') ''processed'' ?name
      = (Inr (Uploaded ''processed'' ?name), ?final)"
    using zero_records [of ?E "''[]''" "[]" ?s "''processed''" ?name] l2 t b p
    by blast
  have c0: "json_string_to_parquet_minio ?E ?fresh (Some ''[]'') ''processed'' ?name
      = (Inr (Uploaded ''processed'' ?name), ?final)"
    using zero_records [of ?E "''[]''" "[]" ?fresh "''processed''" ?name] l2 t b0 mk p
    by blast
  show ?thesis using l1 m a l2 t b p c b0 mk c0 by blast
qed

text \<open>
  Claim C2 as stated fails on the text \<^verbatim>\<open>[]\<close>: with an encoder and a store that raise
  nothing, the destination bucket is made and an object is written.
\<close>

theorem zero_records_counterexample:
  "loads (demo_env (Some []) [] []) ''[]'' = Inr (JArr [])
   \<and> json_string_to_parquet_minio (demo_env (Some []) [] []) empty_store (Some ''[]'')
        ''processed'' ''year=2025/month=12/day=19/hour=14/c.parquet''
      = (Inr (Uploaded ''processed'' ''year=2025/month=12/day=19/hour=14/c.parquet''),
         \<lparr>made_buckets = [''processed''],
            written = [(''processed'', ''year=2025/month=12/day=19/hour=14/c.parquet'',
                        \<lparr>columns = [], rows = []\<rparr>)]\<rparr>)"
  by (simp add: run_defs demo_defs)

section \<open>The run over a partition\<close>

lemma try_except_returns: "\<exists>v s'. try_except body handler = (Inr v, s')"
  by (cases body) (auto simp: try_except_def split: sum.splits)

lemma list_objects_in_minio_folder_returns:
  "\<exists>objects s'. list_objects_in_minio_folder E s bucket_name prefix = (Inr objects, s')"
  unfolding list_objects_in_minio_folder_def by (rule try_except_returns)

lemma read_json_from_minio_returns:
  "\<exists>json_str s'. read_json_from_minio E s bucket_name object_name = (Inr json_str, s')"
  unfolding read_json_from_minio_def by (rule try_except_returns)

lemma json_string_to_parquet_minio_returns:
  "\<exists>out s'. json_string_to_parquet_minio E s json_str bucket_name object_name = (Inr out, s')"
  unfolding json_string_to_parquet_minio_def by (rule try_except_returns)

lemma main_loop_Cons:
  assumes "read_json_from_minio E s source_bucket_name object_name = (Inr json_str, s1)"
    and "json_string_to_parquet_minio E s1 json_str destination_bucket_name
           (destination_object_name year month day hour object_name) = (Inr out, s2)"
    and "main_loop E s2 (year, month, day, hour) source_bucket_name destination_bucket_name rest
           = (Inr its, s3)"
  shows "main_loop E s (year, month, day, hour) source_bucket_name destination_bucket_name
           (object_name # rest)
         = (Inr (\<lparr>it_source = object_name, it_json_str = json_str,
                   it_destination = destination_object_name year month day hour object_name,
                   it_outcome = out\<rparr> # its), s3)"
  using assms by (simp add: Let_def)

lemma main_loop_returns:
  "\<exists>its s'. main_loop E s (year, month, day, hour) source_bucket_name destination_bucket_name
               objects = (Inr its, s')
           \<and> map it_source its = objects"
proof (induction objects arbitrary: s)
  case Nil
  then show ?case by simp
next
  case (Cons object_name rest)
  obtain json_str s1 where r: "read_json_from_minio E s source_bucket_name object_name
      = (Inr json_str, s1)"
    by (metis read_json_from_minio_returns)
  obtain out s2 where c: "json_string_to_parquet_minio E s1 json_str destination_bucket_name
      (destination_object_name year month day hour object_name) = (Inr out, s2)"
    by (metis json_string_to_parquet_minio_returns)
  obtain its s3 where l: "main_loop E s2 (year, month, day, hour) source_bucket_name
      destination_bucket_name rest = (Inr its, s3)" and src: "map it_source its = rest"
    using Cons.IH by blast
  show ?case
    using main_loop_Cons [OF r c l] src by simp
qed



lemma main_result:
  "main E s =
     (case list_objects_in_minio_folder E s ''raw'' ''year=2025/month=12/day=19/hour=14/'' of
        (Inl e, s1) \<Rightarrow> (Inl e, s1)
      | (Inr objects, s1) \<Rightarrow>
          (case main_loop E s1 (2025, 12, 19, 14) ''raw'' ''processed'' objects of
             (Inl e, s2) \<Rightarrow> (Inl e, s2)
           | (Inr its, s2) \<Rightarrow> (Inr \<lparr>files = objects, iterations = its\<rparr>, s2)))"
  by (simp add: main_def Let_def str_int_def str_nat.simps digit_char_def)

text \<open>
  Claim C3, as amended. If the listing step fails, the failure is caught inside the
  listing function, which returns the empty list: the run completes normally, processes
  zero objects and leaves the store as the failed listing left it. No exception raised
  by the object store's client, the JSON parser or the encoder makes the run as a whole
  fail: each is caught in the function that made the call, although \<^verbatim>\<open>main\<close> itself
  catches nothing.
\<close>

theorem run_never_fails:
  "(\<exists>r s'. main E s = (Inr r, s'))
   \<and> (fst (list_objects E s ''raw'' ''year=2025/month=12/day=19/hour=14/'') = Inl e \<longrightarrow>
        fst (main E s) = Inr \<lparr>files = [], iterations = []\<rparr>
        \<and> snd (main E s) = snd (list_objects E s ''raw'' ''year=2025/month=12/day=19/hour=14/''))"
proof -
  obtain objects s0 where l: "list_objects_in_minio_folder E s ''raw''
      ''year=2025/month=12/day=19/hour=14/'' = (Inr objects, s0)"
    by (metis list_objects_in_minio_folder_returns)
  obtain its s' where m: "main_loop E s0 (2025, 12, 19, 14) ''raw'' ''processed'' objects
      = (Inr its, s')"
    by (metis main_loop_returns)
  have "main E s = (Inr \<lparr>files = objects, iterations = its\<rparr>, s')"
    using l m by (simp add: main_result)
  then have first: "\<exists>r s'. main E s = (Inr r, s')" by blast
  have second: "fst (main E s) = Inr \<lparr>files = [], iterations = []\<rparr>
        \<and> snd (main E s) = snd (list_objects E s ''raw'' ''year=2025/month=12/day=19/hour=14/'')"
    if h: "fst (list_objects E s ''raw'' ''year=2025/month=12/day=19/hour=14/'') = Inl e"
  proof -
    obtain s1 where "list_objects E s ''raw'' ''year=2025/month=12/day=19/hour=14/'' = (Inl e, s1)"
      using h by (cases "list_objects E s ''raw'' ''year=2025/month=12/day=19/hour=14/''") auto
    then show ?thesis
      by (simp add: main_result list_objects_in_minio_folder_def try_except_def)
  qed
  show ?thesis using first second by blast
qed

theorem run_never_fails_witness:
  "fst (list_objects (demo_env None demo_contents []) empty_store ''raw'' ''year=2025/month=12/day=19/hour=14/'')
      = Inl S3Error
   \<and> (\<exists>r s'. main (demo_env None demo_contents []) empty_store = (Inr r, s'))
   \<and> fst (main (demo_env None demo_contents []) empty_store) = Inr \<lparr>files = [], iterations = []\<rparr>
   \<and> snd (main (demo_env None demo_contents []) empty_store) = empty_store"
proof -
  have l: "fst (list_objects (demo_env None demo_contents []) empty_store ''raw''
             ''year=2025/month=12/day=19/hour=14/'') = Inl S3Error"
    by (simp add: demo_env_def)
  have s: "snd (list_objects (demo_env None demo_contents []) empty_store ''raw''
             ''year=2025/month=12/day=19/hour=14/'') = empty_store"
    by (simp add: demo_env_def)
  show ?thesis
    using run_never_fails [of "demo_env None demo_contents []" empty_store S3Error] l s
    by simp
qed

text \<open>
  Claim C3 as stated fails when the client raises while listing: the run does not fail,
  it returns normally with an empty report and leaves the store as it was.
\<close>

theorem run_never_fails_counterexample:
  "fst (list_objects (demo_env None [] []) empty_store ''raw'' ''year=2025/month=12/day=19/hour=14/'')
      = Inl S3Error
   \<and> main (demo_env None [] []) empty_store
      = (Inr \<lparr>files = [], iterations = []\<rparr>, empty_store)"
  by (simp add: main_result list_objects_in_minio_folder_def try_except_def demo_env_def)



section \<open>Destination names\<close>

text \<open>
  Claim C6. The destination name is the partition path followed by the source file name
  with \<^verbatim>\<open>.json\<close> replaced by \<^verbatim>\<open>.parquet\<close>. For a name such as \<^verbatim>\<open>person_0329.json\<close> that
  is the extension alone; \<^verbatim>\<open>str.replace\<close> rewrites every occurrence, so in
  \<^verbatim>\<open>report.json.2025.json\<close> the inner \<^verbatim>\<open>.json\<close> is changed as well.
\<close>

theorem destination_replaces_every_occurrence:
  "destination_object_name 2025 12 19 14 ''year=2025/month=12/day=19/hour=14/person_0329.json''
     = ''year=2025/month=12/day=19/hour=14/person_0329.parquet''
   \<and> destination_object_name 2025 12 19 14 ''year=2025/month=12/day=19/hour=14/report.json.2025.json''
     = ''year=2025/month=12/day=19/hour=14/report.parquet.2025.parquet''"
  by (simp add: destination_object_name_def str_int_def str_nat.simps digit_char_def
        replace_def replace_from.simps)

end
